theory Spec2Isabelle
  imports Main
begin

section \<open>Data model\<close>

text \<open>
  The resolvers of \<^verbatim>\<open>src/resolvers/Mutation.js\<close> work on rows of a Prisma store. A row is a
  record with the fields the resolvers read or write; identifiers are strings. Prices,
  quantities and amounts are integers, held in \<open>int\<close>; the arithmetic the resolvers do on
  them is that of JavaScript numbers, defined below.
\<close>

record Item =
  item_id :: string
  item_title :: string
  item_description :: string
  item_image :: string
  item_largeImage :: string
  item_price :: int
  item_user :: string

record User =
  user_id :: string
  user_name :: string
  user_email :: string
  user_password :: string
  user_permissions :: "string list"
  user_resetToken :: "string option"
  user_resetTokenExpiry :: "int option"

record CartItem =
  cartItem_id :: string
  cartItem_quantity :: int
  cartItem_user :: string
  cartItem_item :: string

record OrderItem =
  orderItem_id :: string
  orderItem_title :: string
  orderItem_description :: string
  orderItem_image :: string
  orderItem_largeImage :: string
  orderItem_price :: int
  orderItem_quantity :: int
  orderItem_user :: string
  orderItem_order :: string

record Order =
  order_id :: string
  order_total :: int
  order_charge :: string
  order_user :: string

text \<open>
  The store: one list of rows per type, in insertion order, and the counter the store
  draws fresh identifiers from. Constraints of the store itself (uniqueness, referential
  checks of \<^verbatim>\<open>connect\<close>) are not part of the resolvers and are not modelled; a lookup that
  could match several rows takes the first.
\<close>

record database =
  users :: "User list"
  items :: "Item list"
  cartItems :: "CartItem list"
  orders :: "Order list"
  orderItems :: "OrderItem list"
  id_supply :: nat

text \<open>A value of a GraphQL argument object, where the resolver treats it as an object.\<close>

datatype jsval = JStr string | JNum int

text \<open>
  What a resolver throws. \<open>Error m\<close> is \<^verbatim>\<open>new Error(m)\<close> of the source; \<open>TypeError\<close> is
  the property read on \<^verbatim>\<open>null\<close>; \<open>PaymentFailed\<close> is the rejection of the Stripe call;
  \<open>PersistenceError\<close> is the store refusing a write whose \<^verbatim>\<open>where\<close> selects no row;
  the other three are raised by the guards of \<^verbatim>\<open>../utils\<close>.
\<close>

datatype error =
    Error string
  | TypeError
  | NotAuthenticated
  | OwnershipDenied
  | PermissionDenied
  | PaymentFailed string
  | PersistenceError

definition PasswordMismatch :: error where
  "PasswordMismatch = Error ''Passwords do not match''"

definition InvalidOrExpiredToken :: error where
  "InvalidOrExpiredToken = Error ''This token is either invalid or expired''"

record Charge =
  charge_id :: string
  charge_amount :: int

record ChargeRequest =
  req_amount :: int
  req_currency :: string
  req_source :: string

record Mail =
  mail_from :: string
  mail_to :: string
  mail_subject :: string
  mail_html :: string

text \<open>
  The collaborators a resolver calls and that are no code of the repository: the clock,
  the random source, bcrypt, jsonwebtoken (with \<^verbatim>\<open>APP_SECRET\<close>), the mail template (with
  \<^verbatim>\<open>FRONTEND_URL\<close>), the engine's case tables for the characters outside ASCII and Stripe's
  \<^verbatim>\<open>charges.create\<close>.
\<close>

record env =
  now :: int
  randomBytes_hex :: string
  bcrypt_hash :: "string \<Rightarrow> string"
  bcrypt_compare :: "string \<Rightarrow> string \<Rightarrow> bool"
  jwt_sign :: "string \<Rightarrow> string"
  makeANiceEmail :: "string \<Rightarrow> string"
  toLowerCase_engine :: "string \<Rightarrow> string"
  frontend_url :: string
  stripe_charges_create :: "ChargeRequest \<Rightarrow> string + Charge"

text \<open>
  Everything a request can change: the store, the \<^verbatim>\<open>token\<close> cookie of the response, the
  charges submitted to Stripe and the mails handed to the transport.
\<close>

record world =
  db :: database
  cookie :: "string option"
  charges :: "ChargeRequest list"
  outbox :: "Mail list"

text \<open>\<^verbatim>\<open>ctx.request\<close>: the caller's identity as the middleware left it.\<close>

record request =
  userId :: "string option"
  user :: "User option"

section \<open>JavaScript numbers\<close>

text \<open>
  A JavaScript number is an IEEE 754 double. An integer of magnitude below \<open>2 ^ 53\<close> is a
  double; a larger one is rounded to the nearest integer with 53 significant bits, a tie going
  to the one whose last significant bit is 0. \<open>+\<close> and \<open>*\<close> return the exact result,
  rounded so. The \<open>Int\<close> fields of the store hold 32-bit integers, which are doubles, and
  no sum of their products over a cart that a store can hold reaches \<open>2 ^ 1024\<close>, where a
  double becomes \<open>Infinity\<close>.
\<close>

fun bit_length :: "nat \<Rightarrow> nat" where
  "bit_length n = (if n = 0 then 0 else Suc (bit_length (n div 2)))"

declare bit_length.simps [simp del]

definition round_to_double :: "int \<Rightarrow> int" where
  "round_to_double n =
     (if \<bar>n\<bar> < 2 ^ 53 then n
      else (let m = nat \<bar>n\<bar>;
                ulp = 2 ^ (bit_length m - 53);
                q = m div ulp;
                r = m mod ulp;
                significand = (if ulp < 2 * r \<or> (2 * r = ulp \<and> odd q) then Suc q else q)
            in (if n < 0 then - int (significand * ulp) else int (significand * ulp))))"

definition js_times :: "int \<Rightarrow> int \<Rightarrow> int" where
  "js_times a b = round_to_double (a * b)"

definition js_plus :: "int \<Rightarrow> int \<Rightarrow> int" where
  "js_plus a b = round_to_double (a + b)"

section \<open>The guards of \<^verbatim>\<open>../utils\<close>\<close>

text \<open>
  Modelled from the spec: \<^verbatim>\<open>signInError\<close> of \<^verbatim>\<open>../utils\<close> is not among the sources. The
  spec makes every guard failure terminal for the request and names the signal of a missing
  identity \<open>NotAuthenticated\<close>.
\<close>

definition signInError :: "error + 'a" where
  "signInError = Inl NotAuthenticated"

text \<open>
  Modelled from the spec: \<^verbatim>\<open>itemOwnershipError\<close> of \<^verbatim>\<open>../utils\<close> is not among the sources.
  The spec's OwnershipGuard rejects with \<open>OwnershipDenied\<close>.
\<close>

definition itemOwnershipError :: "error + 'a" where
  "itemOwnershipError = Inl OwnershipDenied"

text \<open>
  Modelled from the spec: \<^verbatim>\<open>hasPermission\<close> of \<^verbatim>\<open>../utils\<close> is not among the sources. The
  spec's PermissionGuard allows when the caller holds one of the required tags, rejects with
  \<open>PermissionDenied\<close> otherwise, and rejects with \<open>NotAuthenticated\<close> when there is no
  caller at all.
\<close>

definition hasPermission :: "User option \<Rightarrow> string list \<Rightarrow> error + unit" where
  "hasPermission u permissionsNeeded =
     (case u of
        None \<Rightarrow> Inl NotAuthenticated
      | Some usr \<Rightarrow>
          (if filter (\<lambda>p. p \<in> set permissionsNeeded) (user_permissions usr) = []
           then Inl PermissionDenied else Inr ()))"

section \<open>The persistence collaborator\<close>

definition mk_id :: "nat \<Rightarrow> string" where
  "mk_id n = CHR ''c'' # replicate n (CHR ''k'')"

definition db_query_item :: "database \<Rightarrow> jsval option \<Rightarrow> Item option" where
  "db_query_item d v = find (\<lambda>i. Some (JStr (item_id i)) = v) (items d)"

definition db_query_user :: "database \<Rightarrow> string option \<Rightarrow> User option" where
  "db_query_user d v = find (\<lambda>u. Some (user_id u) = v) (users d)"

definition db_query_user_by_email :: "database \<Rightarrow> string \<Rightarrow> User option" where
  "db_query_user_by_email d e = find (\<lambda>u. user_email u = e) (users d)"

text \<open>
  A cart entry as \<^verbatim>\<open>createOrder\<close> fetches it:
  \<^verbatim>\<open>cart { id quantity item { title price id description image largeImage } }\<close>. The item
  is \<^verbatim>\<open>null\<close> when the row it refers to is gone.
\<close>

record CartEntry =
  entry_id :: string
  entry_quantity :: int
  entry_item :: "Item option"

definition fetch_entry :: "database \<Rightarrow> CartItem \<Rightarrow> CartEntry" where
  "fetch_entry d c =
     \<lparr>entry_id = cartItem_id c, entry_quantity = cartItem_quantity c,
      entry_item = find (\<lambda>i. item_id i = cartItem_item c) (items d)\<rparr>"

definition db_query_user_cart :: "database \<Rightarrow> string \<Rightarrow> (User \<times> CartEntry list) option" where
  "db_query_user_cart d uid =
     (case db_query_user d (Some uid) of
        None \<Rightarrow> None
      | Some u \<Rightarrow>
          Some (u, map (fetch_entry d) (filter (\<lambda>c. cartItem_user c = uid) (cartItems d))))"

text \<open>\<^verbatim>\<open>query.users({ where: { resetToken, resetTokenExpiry_gte } })\<close>.\<close>

definition db_query_users_reset :: "database \<Rightarrow> string \<Rightarrow> int \<Rightarrow> User list" where
  "db_query_users_reset d tok bound =
     filter (\<lambda>u. user_resetToken u = Some tok \<and>
                 (case user_resetTokenExpiry u of None \<Rightarrow> False | Some x \<Rightarrow> bound \<le> x))
       (users d)"

definition db_query_cartItems :: "database \<Rightarrow> string \<Rightarrow> string \<Rightarrow> CartItem list" where
  "db_query_cartItems d uid iid =
     filter (\<lambda>c. cartItem_user c = uid \<and> cartItem_item c = iid) (cartItems d)"

definition db_query_cartItem :: "database \<Rightarrow> string \<Rightarrow> CartItem option" where
  "db_query_cartItem d cid = find (\<lambda>c. cartItem_id c = cid) (cartItems d)"

text \<open>The arguments of \<^verbatim>\<open>createItem\<close>, as the schema types them.\<close>

record ItemCreateInput =
  input_title :: string
  input_description :: string
  input_image :: string
  input_largeImage :: string
  input_price :: int

definition db_createItem :: "database \<Rightarrow> string \<Rightarrow> ItemCreateInput \<Rightarrow> Item \<times> database" where
  "db_createItem d uid a =
     (let i = \<lparr>item_id = mk_id (id_supply d), item_title = input_title a,
                item_description = input_description a, item_image = input_image a,
                item_largeImage = input_largeImage a, item_price = input_price a,
                item_user = uid\<rparr>
      in (i, d\<lparr>items := items d @ [i], id_supply := Suc (id_supply d)\<rparr>))"

text \<open>
  An update writes the fields its \<^verbatim>\<open>data\<close> object names, whichever they are, and leaves
  the others; a value of the wrong type for its field is not written.
\<close>

definition str_field :: "(string \<rightharpoonup> jsval) \<Rightarrow> string \<Rightarrow> string \<Rightarrow> string" where
  "str_field data k old = (case data k of Some (JStr s) \<Rightarrow> s | _ \<Rightarrow> old)"

definition num_field :: "(string \<rightharpoonup> jsval) \<Rightarrow> string \<Rightarrow> int \<Rightarrow> int" where
  "num_field data k old = (case data k of Some (JNum n) \<Rightarrow> n | _ \<Rightarrow> old)"

definition write_item :: "(string \<rightharpoonup> jsval) \<Rightarrow> Item \<Rightarrow> Item" where
  "write_item data i =
     \<lparr>item_id = str_field data ''id'' (item_id i),
      item_title = str_field data ''title'' (item_title i),
      item_description = str_field data ''description'' (item_description i),
      item_image = str_field data ''image'' (item_image i),
      item_largeImage = str_field data ''largeImage'' (item_largeImage i),
      item_price = num_field data ''price'' (item_price i),
      item_user = item_user i\<rparr>"

record ItemUpdateParams =
  params_data :: "string \<rightharpoonup> jsval"
  params_where :: "jsval option"

definition db_updateItem :: "database \<Rightarrow> ItemUpdateParams \<Rightarrow> Item option \<times> database" where
  "db_updateItem d p =
     (case db_query_item d (params_where p) of
        None \<Rightarrow> (None, d)
      | Some i \<Rightarrow>
          (Some (write_item (params_data p) i),
           d\<lparr>items := map (\<lambda>r. if Some (JStr (item_id r)) = params_where p
                                then write_item (params_data p) r else r) (items d)\<rparr>))"

definition db_deleteItem :: "database \<Rightarrow> jsval option \<Rightarrow> Item option \<times> database" where
  "db_deleteItem d v =
     (case db_query_item d v of
        None \<Rightarrow> (None, d)
      | Some i \<Rightarrow> (Some i, d\<lparr>items := filter (\<lambda>r. Some (JStr (item_id r)) \<noteq> v) (items d)\<rparr>))"

definition db_createUser ::
  "database \<Rightarrow> string \<Rightarrow> string \<Rightarrow> string \<Rightarrow> string list \<Rightarrow> User \<times> database" where
  "db_createUser d name email password permissions =
     (let u = \<lparr>user_id = mk_id (id_supply d), user_name = name, user_email = email,
                user_password = password, user_permissions = permissions,
                user_resetToken = None, user_resetTokenExpiry = None\<rparr>
      in (u, d\<lparr>users := users d @ [u], id_supply := Suc (id_supply d)\<rparr>))"

text \<open>\<^verbatim>\<open>mutation.updateUser({ where, data })\<close>: \<open>sel\<close> is the \<^verbatim>\<open>where\<close>, \<open>upd\<close> the \<^verbatim>\<open>data\<close>.\<close>

definition db_updateUser ::
  "database \<Rightarrow> (User \<Rightarrow> bool) \<Rightarrow> (User \<Rightarrow> User) \<Rightarrow> User option \<times> database" where
  "db_updateUser d sel upd =
     (case find sel (users d) of
        None \<Rightarrow> (None, d)
      | Some u \<Rightarrow> (Some (upd u), d\<lparr>users := map (\<lambda>r. if sel r then upd r else r) (users d)\<rparr>))"

text \<open>
  Modelled from the spec: the datamodel, with the default of a cart item's quantity, is not
  among the sources. The spec has a new cart item created with quantity 1.
\<close>

definition cartItem_quantity_default :: int where
  "cartItem_quantity_default = 1"

definition db_createCartItem :: "database \<Rightarrow> string \<Rightarrow> string \<Rightarrow> CartItem \<times> database" where
  "db_createCartItem d uid iid =
     (let c = \<lparr>cartItem_id = mk_id (id_supply d), cartItem_quantity = cartItem_quantity_default,
                cartItem_user = uid, cartItem_item = iid\<rparr>
      in (c, d\<lparr>cartItems := cartItems d @ [c], id_supply := Suc (id_supply d)\<rparr>))"

definition db_updateCartItem :: "database \<Rightarrow> string \<Rightarrow> int \<Rightarrow> CartItem option \<times> database" where
  "db_updateCartItem d cid q =
     (case db_query_cartItem d cid of
        None \<Rightarrow> (None, d)
      | Some c \<Rightarrow>
          (Some (c\<lparr>cartItem_quantity := q\<rparr>),
           d\<lparr>cartItems := map (\<lambda>r. if cartItem_id r = cid then r\<lparr>cartItem_quantity := q\<rparr> else r)
                              (cartItems d)\<rparr>))"

definition db_deleteCartItem :: "database \<Rightarrow> string \<Rightarrow> CartItem option \<times> database" where
  "db_deleteCartItem d cid =
     (case db_query_cartItem d cid of
        None \<Rightarrow> (None, d)
      | Some c \<Rightarrow> (Some c, d\<lparr>cartItems := filter (\<lambda>r. cartItem_id r \<noteq> cid) (cartItems d)\<rparr>))"

text \<open>\<^verbatim>\<open>deleteManyCartItems({ where: { id_in } })\<close>.\<close>

definition db_deleteManyCartItems :: "database \<Rightarrow> string list \<Rightarrow> database" where
  "db_deleteManyCartItems d ids =
     d\<lparr>cartItems := filter (\<lambda>c. cartItem_id c \<notin> set ids) (cartItems d)\<rparr>"

text \<open>An element of \<^verbatim>\<open>items: { create: orderItems }\<close>: an item's fields without its id.\<close>

record OrderItemCreateInput =
  draft_title :: string
  draft_description :: string
  draft_image :: string
  draft_largeImage :: string
  draft_price :: int
  draft_quantity :: int
  draft_user :: string

definition orderItem_row :: "string \<Rightarrow> string \<Rightarrow> OrderItemCreateInput \<Rightarrow> OrderItem" where
  "orderItem_row oid new_id x =
     \<lparr>orderItem_id = new_id, orderItem_title = draft_title x,
      orderItem_description = draft_description x, orderItem_image = draft_image x,
      orderItem_largeImage = draft_largeImage x, orderItem_price = draft_price x,
      orderItem_quantity = draft_quantity x, orderItem_user = draft_user x,
      orderItem_order = oid\<rparr>"

definition db_createOrder ::
  "database \<Rightarrow> int \<Rightarrow> string \<Rightarrow> OrderItemCreateInput list \<Rightarrow> string \<Rightarrow> Order \<times> database" where
  "db_createOrder d tot charge drafts uid =
     (let n = id_supply d;
          order = \<lparr>order_id = mk_id n, order_total = tot, order_charge = charge,
                    order_user = uid\<rparr>;
          rows = map (\<lambda>(k, x). orderItem_row (mk_id n) (mk_id k) x) (enumerate (Suc n) drafts)
      in (order,
          d\<lparr>orders := orders d @ [order], orderItems := orderItems d @ rows,
            id_supply := Suc n + length drafts\<rparr>))"

section \<open>The resolvers\<close>

text \<open>
  Each resolver takes its arguments, \<^verbatim>\<open>ctx.request\<close> where it reads it, and the world, and
  returns what it returns or throws together with the world it leaves. The test
  \<^verbatim>\<open>if (!ctx.request.userId)\<close> holds for an absent identifier and for the empty string.
\<close>

definition createItem :: "ItemCreateInput \<Rightarrow> request \<Rightarrow> world \<Rightarrow> (error + Item) \<times> world" where
  "createItem args rq w =
     (case userId rq of
        None \<Rightarrow> (signInError, w)
      | Some uid \<Rightarrow>
          if uid = [] then (signInError, w)
          else (case hasPermission (user rq) [''ITEMCREATE''] of
                  Inl err \<Rightarrow> (Inl err, w)
                | Inr _ \<Rightarrow>
                    (case db_createItem (db w) uid args of
                       (item, d) \<Rightarrow> (Inr item, w\<lparr>db := d\<rparr>))))"

text \<open>\<^verbatim>\<open>const updates = { ...args }; delete updates.id;\<close> and the \<^verbatim>\<open>params\<close> built from it.\<close>

definition updateItem_params :: "(string \<rightharpoonup> jsval) \<Rightarrow> ItemUpdateParams" where
  "updateItem_params args = \<lparr>params_data = args(''id'' := None), params_where = args ''id''\<rparr>"

definition updateItem :: "(string \<rightharpoonup> jsval) \<Rightarrow> request \<Rightarrow> world \<Rightarrow> (error + Item) \<times> world" where
  "updateItem args rq w =
     (case db_query_item (db w) (args ''id'') of
        None \<Rightarrow> (Inl TypeError, w)
      | Some item \<Rightarrow>
          if Some (item_user item) \<noteq> userId rq then (itemOwnershipError, w)
          else (case hasPermission (user rq) [''ITEMUPDATE''] of
                  Inl err \<Rightarrow> (Inl err, w)
                | Inr _ \<Rightarrow>
                    (case db_updateItem (db w) (updateItem_params args) of
                       (None, d) \<Rightarrow> (Inl PersistenceError, w)
                     | (Some updatedItem, d) \<Rightarrow> (Inr updatedItem, w\<lparr>db := d\<rparr>))))"

definition deleteItem :: "string \<Rightarrow> request \<Rightarrow> world \<Rightarrow> (error + Item) \<times> world" where
  "deleteItem id_arg rq w =
     (case db_query_item (db w) (Some (JStr id_arg)) of
        None \<Rightarrow> (Inl TypeError, w)
      | Some item \<Rightarrow>
          if Some (item_user item) \<noteq> userId rq then (itemOwnershipError, w)
          else (case hasPermission (user rq) [''ITEMDELETE''] of
                  Inl err \<Rightarrow> (Inl err, w)
                | Inr _ \<Rightarrow>
                    (case db_deleteItem (db w) (Some (JStr id_arg)) of
                       (None, d) \<Rightarrow> (Inl PersistenceError, w)
                     | (Some deleted, d) \<Rightarrow> (Inr deleted, w\<lparr>db := d\<rparr>))))"

text \<open>
  \<^verbatim>\<open>String.prototype.toLowerCase\<close>. A string of ASCII characters has its letters \<open>A\<close> to
  \<open>Z\<close> lowered; what becomes of a string with other characters is the engine's to say.
\<close>

definition toLowerCase :: "env \<Rightarrow> string \<Rightarrow> string" where
  "toLowerCase e s =
     (if list_all (\<lambda>c. of_char c < (128::nat)) s
      then map (\<lambda>c. if (65::nat) \<le> of_char c \<and> of_char c \<le> (90::nat)
                    then char_of (of_char c + (32::nat)) else c) s
      else toLowerCase_engine e s)"

record SignupArgs =
  signup_name :: string
  signup_email :: string
  signup_password :: string

definition signup :: "env \<Rightarrow> SignupArgs \<Rightarrow> world \<Rightarrow> (error + User) \<times> world" where
  "signup e args w =
     (let password = bcrypt_hash e (signup_password args) in
      case db_createUser (db w) (signup_name args) (toLowerCase e (signup_email args)) password
             [''USER'', ''ITEMCREATE'', ''ITEMUPDATE'', ''ITEMDELETE''] of
        (usr, d) \<Rightarrow> (Inr usr, w\<lparr>db := d, cookie := Some (jwt_sign e (user_id usr))\<rparr>))"

definition signin :: "env \<Rightarrow> string \<Rightarrow> string \<Rightarrow> world \<Rightarrow> (error + User) \<times> world" where
  "signin e email password w =
     (case db_query_user_by_email (db w) email of
        None \<Rightarrow> (Inl (Error (''No such user found for email '' @ email)), w)
      | Some usr \<Rightarrow>
          if \<not> bcrypt_compare e password (user_password usr)
          then (Inl (Error ''Invalid password!''), w)
          else (Inr usr, w\<lparr>cookie := Some (jwt_sign e (user_id usr))\<rparr>))"

definition signout :: "world \<Rightarrow> (error + string) \<times> world" where
  "signout w = (Inr ''Signed out successfully'', w\<lparr>cookie := None\<rparr>)"

text \<open>
  The text handed to \<^verbatim>\<open>makeANiceEmail\<close>: the template literal of the source, with its two
  line feeds and the quotes around the link. The transport is taken to accept the mail.
\<close>

definition reset_mail_text :: "string \<Rightarrow> string \<Rightarrow> string" where
  "reset_mail_text frontend resetToken =
     ''Your Password Reset Token is here! '' @ [CHR 0x0A, CHR 0x0A] @ '' <a href='' @
     [CHR 0x22] @ frontend @ ''/reset?resetToken='' @ resetToken @ [CHR 0x22] @
     ''>Click Here to Reset</a>''"

definition requestReset :: "env \<Rightarrow> string \<Rightarrow> world \<Rightarrow> (error + string) \<times> world" where
  "requestReset e email w =
     (case db_query_user_by_email (db w) email of
        None \<Rightarrow> (Inl (Error (''No such user found for email '' @ email)), w)
      | Some usr \<Rightarrow>
          (let resetToken = randomBytes_hex e;
               resetTokenExpiry = now e + 3600000
           in case db_updateUser (db w) (\<lambda>u. user_email u = email)
                     (\<lambda>u. u\<lparr>user_resetToken := Some resetToken,
                             user_resetTokenExpiry := Some resetTokenExpiry\<rparr>) of
                (None, d) \<Rightarrow> (Inl PersistenceError, w)
              | (Some updated, d) \<Rightarrow>
                  (Inr ''Success!'',
                   w\<lparr>db := d,
                     outbox := outbox w @
                       [\<lparr>mail_from = ''help@hoodify.com'', mail_to = user_email usr,
                         mail_subject = ''Your Password Reset Token'',
                         mail_html = makeANiceEmail e
                           (reset_mail_text (frontend_url e) resetToken)\<rparr>]\<rparr>)))"

record ResetArgs =
  reset_resetToken :: string
  reset_password :: string
  reset_confirmPassword :: string
  reset_oldPassword :: string

definition resetPassword :: "env \<Rightarrow> ResetArgs \<Rightarrow> world \<Rightarrow> (error + User) \<times> world" where
  "resetPassword e args w =
     (if reset_password args \<noteq> reset_confirmPassword args
      then (Inl (Error ''Passwords do not match''), w)
      else (case db_query_users_reset (db w) (reset_resetToken args) (now e - 3600000) of
              [] \<Rightarrow> (Inl (Error ''This token is either invalid or expired''), w)
            | usr # rest \<Rightarrow>
                if \<not> bcrypt_compare e (reset_oldPassword args) (user_password usr)
                then (Inl (Error ''Invalid current password''), w)
                else (let password = bcrypt_hash e (reset_password args)
                      in case db_updateUser (db w) (\<lambda>u. user_email u = user_email usr)
                                (\<lambda>u. u\<lparr>user_password := password, user_resetToken := None,
                                        user_resetTokenExpiry := None\<rparr>) of
                           (None, d) \<Rightarrow> (Inl PersistenceError, w)
                         | (Some updatedUser, d) \<Rightarrow>
                             (Inr updatedUser,
                              w\<lparr>db := d,
                                cookie := Some (jwt_sign e (user_id updatedUser))\<rparr>))))"

definition updatePermissions ::
  "string \<Rightarrow> string list \<Rightarrow> request \<Rightarrow> world \<Rightarrow> (error + User) \<times> world" where
  "updatePermissions target permissions rq w =
     (case userId rq of
        None \<Rightarrow> (signInError, w)
      | Some uid \<Rightarrow>
          if uid = [] then (signInError, w)
          else (case hasPermission (db_query_user (db w) (Some uid))
                       [''ADMIN'', ''PERMISSIONUPDATE''] of
                  Inl err \<Rightarrow> (Inl err, w)
                | Inr _ \<Rightarrow>
                    (case db_updateUser (db w) (\<lambda>u. user_id u = target)
                            (\<lambda>u. u\<lparr>user_permissions := permissions\<rparr>) of
                       (None, d) \<Rightarrow> (Inl PersistenceError, w)
                     | (Some updated, d) \<Rightarrow> (Inr updated, w\<lparr>db := d\<rparr>))))"

text \<open>
  \<^verbatim>\<open>existingCartItem.quantity + 1\<close> is exact: the quantity is an \<open>Int\<close> of the store.
\<close>

definition addToCart :: "string \<Rightarrow> request \<Rightarrow> world \<Rightarrow> (error + CartItem) \<times> world" where
  "addToCart id_arg rq w =
     (case userId rq of
        None \<Rightarrow> (signInError, w)
      | Some uid \<Rightarrow>
          if uid = [] then (signInError, w)
          else (case db_query_cartItems (db w) uid id_arg of
                  existingCartItem # rest \<Rightarrow>
                    (case db_updateCartItem (db w) (cartItem_id existingCartItem)
                            (cartItem_quantity existingCartItem + 1) of
                       (None, d) \<Rightarrow> (Inl PersistenceError, w)
                     | (Some updated, d) \<Rightarrow> (Inr updated, w\<lparr>db := d\<rparr>))
                | [] \<Rightarrow>
                    (case db_createCartItem (db w) uid id_arg of
                       (created, d) \<Rightarrow> (Inr created, w\<lparr>db := d\<rparr>))))"

definition removeFromCart :: "string \<Rightarrow> request \<Rightarrow> world \<Rightarrow> (error + CartItem) \<times> world" where
  "removeFromCart id_arg rq w =
     (case db_query_cartItem (db w) id_arg of
        None \<Rightarrow> (Inl (Error ''No cart item found''), w)
      | Some cartItem \<Rightarrow>
          if Some (cartItem_user cartItem) \<noteq> userId rq then (itemOwnershipError, w)
          else (case db_deleteCartItem (db w) id_arg of
                  (None, d) \<Rightarrow> (Inl PersistenceError, w)
                | (Some deleted, d) \<Rightarrow> (Inr deleted, w\<lparr>db := d\<rparr>)))"

subsection \<open>Checkout\<close>

text \<open>
  \<^verbatim>\<open>user.cart.reduce((total, cartItem) => total + cartItem.item.price * cartItem.quantity, 0)\<close>:
  a left fold with the running total, in the arithmetic of JavaScript numbers; reading
  \<^verbatim>\<open>price\<close> of an item that is \<^verbatim>\<open>null\<close> throws.
\<close>

fun reduce_amount :: "int \<Rightarrow> CartEntry list \<Rightarrow> error + int" where
  "reduce_amount tot [] = Inr tot"
| "reduce_amount tot (cartItem # cart) =
     (case entry_item cartItem of
        None \<Rightarrow> Inl TypeError
      | Some item \<Rightarrow>
          reduce_amount (js_plus tot (js_times (item_price item) (entry_quantity cartItem))) cart)"

text \<open>
  \<^verbatim>\<open>{ ...cartItem.item, quantity, user }\<close> with \<^verbatim>\<open>id\<close> deleted. An entry without item
  yields nothing here; the fold above has thrown before such an entry gets this far.
\<close>

definition orderItem_of_entry :: "string \<Rightarrow> CartEntry \<Rightarrow> OrderItemCreateInput option" where
  "orderItem_of_entry uid cartItem =
     (case entry_item cartItem of
        None \<Rightarrow> None
      | Some item \<Rightarrow>
          Some \<lparr>draft_title = item_title item, draft_description = item_description item,
                draft_image = item_image item, draft_largeImage = item_largeImage item,
                draft_price = item_price item, draft_quantity = entry_quantity cartItem,
                draft_user = uid\<rparr>)"

text \<open>
  \<^verbatim>\<open>createOrder\<close>. The resolver awaits Stripe and then the store; requests of other callers
  run meanwhile. \<open>during_charge\<close> is what they do to the store while the charge is awaited,
  \<open>during_persist\<close> what they do between the order's creation and the clearing of the cart.
\<close>

definition createOrder_interleaved ::
  "env \<Rightarrow> (database \<Rightarrow> database) \<Rightarrow> (database \<Rightarrow> database) \<Rightarrow> string \<Rightarrow> request \<Rightarrow> world
     \<Rightarrow> (error + Order) \<times> world" where
  "createOrder_interleaved e during_charge during_persist token rq w =
     (case userId rq of
        None \<Rightarrow> (signInError, w)
      | Some uid \<Rightarrow>
          if uid = [] then (signInError, w)
          else (case db_query_user_cart (db w) uid of
                  None \<Rightarrow> (Inl TypeError, w)
                | Some (usr, cart) \<Rightarrow>
                    (case reduce_amount 0 cart of
                       Inl err \<Rightarrow> (Inl err, w)
                     | Inr amount \<Rightarrow>
                         (let submitted = \<lparr>req_amount = amount, req_currency = ''USD'',
                                            req_source = token\<rparr>;
                              w1 = w\<lparr>charges := charges w @ [submitted],
                                     db := during_charge (db w)\<rparr>
                          in case stripe_charges_create e submitted of
                               Inl msg \<Rightarrow> (Inl (PaymentFailed msg), w1)
                             | Inr charge \<Rightarrow>
                                 (let drafts = List.map_filter (orderItem_of_entry uid) cart
                                  in case db_createOrder (db w1) (charge_amount charge)
                                            (charge_id charge) drafts uid of
                                       (order, d) \<Rightarrow>
                                         (let cartItemIds = map entry_id cart
                                          in (Inr order,
                                              w1\<lparr>db := db_deleteManyCartItems (during_persist d)
                                                          cartItemIds\<rparr>)))))))"

text \<open>The resolver with no other request in between.\<close>

definition createOrder :: "env \<Rightarrow> string \<Rightarrow> request \<Rightarrow> world \<Rightarrow> (error + Order) \<times> world" where
  "createOrder e token rq w = createOrder_interleaved e (\<lambda>d. d) (\<lambda>d. d) token rq w"

subsection \<open>The \<^verbatim>\<open>Mutations\<close> object\<close>

datatype mutation =
    CreateItem ItemCreateInput
  | UpdateItem "string \<rightharpoonup> jsval"
  | DeleteItem string
  | Signup SignupArgs
  | Signin string string
  | Signout
  | RequestReset string
  | ResetPassword ResetArgs
  | UpdatePermissions string "string list"
  | AddToCart string
  | RemoveFromCart string
  | CreateOrder string

datatype payload =
    ItemPayload Item
  | UserPayload User
  | CartItemPayload CartItem
  | OrderPayload Order
  | MessagePayload string

definition returning :: "('a \<Rightarrow> payload) \<Rightarrow> (error + 'a) \<times> world \<Rightarrow> (error + payload) \<times> world" where
  "returning f r = (map_sum (\<lambda>err. err) f (fst r), snd r)"

fun Mutations :: "env \<Rightarrow> mutation \<Rightarrow> request \<Rightarrow> world \<Rightarrow> (error + payload) \<times> world" where
  "Mutations e (CreateItem args) rq w = returning ItemPayload (createItem args rq w)"
| "Mutations e (UpdateItem args) rq w = returning ItemPayload (updateItem args rq w)"
| "Mutations e (DeleteItem id_arg) rq w = returning ItemPayload (deleteItem id_arg rq w)"
| "Mutations e (Signup args) rq w = returning UserPayload (signup e args w)"
| "Mutations e (Signin email password) rq w = returning UserPayload (signin e email password w)"
| "Mutations e Signout rq w = returning MessagePayload (signout w)"
| "Mutations e (RequestReset email) rq w = returning MessagePayload (requestReset e email w)"
| "Mutations e (ResetPassword args) rq w = returning UserPayload (resetPassword e args w)"
| "Mutations e (UpdatePermissions target permissions) rq w =
     returning UserPayload (updatePermissions target permissions rq w)"
| "Mutations e (AddToCart id_arg) rq w = returning CartItemPayload (addToCart id_arg rq w)"
| "Mutations e (RemoveFromCart id_arg) rq w = returning CartItemPayload (removeFromCart id_arg rq w)"
| "Mutations e (CreateOrder token) rq w = returning OrderPayload (createOrder e token rq w)"

section \<open>A shop to run the resolvers on\<close>

text \<open>
  Three users, two items, and the cart of the spec's example: two hoodies at 500 and one cap
  at 300 in Ann's cart, and a cart item of Bob's. The gateway confirms a charge for the
  token \<open>tok_visa\<close> and declines every other token.
\<close>

definition ann :: User where
  "ann = \<lparr>user_id = ''u1'', user_name = ''Ann'', user_email = ''ann@shop.io'',
          user_password = ''h:pw1'', user_permissions = [''USER'', ''ITEMCREATE'', ''ITEMUPDATE'', ''ITEMDELETE''],
          user_resetToken = None, user_resetTokenExpiry = None\<rparr>"

definition bob :: User where
  "bob = \<lparr>user_id = ''u2'', user_name = ''Bob'', user_email = ''bob@shop.io'',
          user_password = ''h:pw2'', user_permissions = [''USER''],
          user_resetToken = Some ''tok'', user_resetTokenExpiry = Some 5000000\<rparr>"

definition carol :: User where
  "carol = \<lparr>user_id = ''u3'', user_name = ''Carol'', user_email = ''carol@shop.io'',
            user_password = ''h:pw3'', user_permissions = [''ADMIN''],
            user_resetToken = None, user_resetTokenExpiry = None\<rparr>"

definition hoodie :: Item where
  "hoodie = \<lparr>item_id = ''i1'', item_title = ''Hoodie'', item_description = ''warm'',
             item_image = ''h.png'', item_largeImage = ''H.png'', item_price = 500,
             item_user = ''u1''\<rparr>"

definition cap :: Item where
  "cap = \<lparr>item_id = ''i2'', item_title = ''Cap'', item_description = ''blue'',
          item_image = ''c.png'', item_largeImage = ''C.png'', item_price = 300,
          item_user = ''u2''\<rparr>"

definition shop_db :: database where
  "shop_db =
     \<lparr>users = [ann, bob, carol], items = [hoodie, cap],
      cartItems =
        [\<lparr>cartItem_id = ''c1'', cartItem_quantity = 2, cartItem_user = ''u1'', cartItem_item = ''i1''\<rparr>,
         \<lparr>cartItem_id = ''c2'', cartItem_quantity = 1, cartItem_user = ''u1'', cartItem_item = ''i2''\<rparr>,
         \<lparr>cartItem_id = ''c3'', cartItem_quantity = 4, cartItem_user = ''u2'', cartItem_item = ''i2''\<rparr>],
      orders = [], orderItems = [], id_supply = 0\<rparr>"

definition shop :: world where
  "shop = \<lparr>db = shop_db, cookie = None, charges = [], outbox = []\<rparr>"

definition shop_env :: env where
  "shop_env =
     \<lparr>now = 6000000, randomBytes_hex = ''a1b2'', bcrypt_hash = (\<lambda>p. ''h:'' @ p),
      bcrypt_compare = (\<lambda>p h. h = ''h:'' @ p), jwt_sign = (\<lambda>u. ''jwt:'' @ u),
      makeANiceEmail = (\<lambda>t. t), toLowerCase_engine = (\<lambda>s. s),
      frontend_url = ''http://shop.io'',
      stripe_charges_create =
        (\<lambda>r. if req_source r = ''tok_visa''
              then Inr \<lparr>charge_id = ''ch_1'', charge_amount = req_amount r\<rparr>
              else Inl ''card_declined'')\<rparr>"

definition as_ann :: request where
  "as_ann = \<lparr>userId = Some ''u1'', user = Some ann\<rparr>"

definition as_bob :: request where
  "as_bob = \<lparr>userId = Some ''u2'', user = Some bob\<rparr>"

definition as_carol :: request where
  "as_carol = \<lparr>userId = Some ''u3'', user = Some carol\<rparr>"

text \<open>Another request of Ann's, run while her checkout awaits the gateway: one more cap.\<close>

definition late_add :: "database \<Rightarrow> database" where
  "late_add d =
     d\<lparr>cartItems := cartItems d @
         [\<lparr>cartItem_id = ''c9'', cartItem_quantity = 1, cartItem_user = ''u1'',
           cartItem_item = ''i2''\<rparr>]\<rparr>"



definition as_anonymous :: request where
  "as_anonymous = \<lparr>userId = None, user = None\<rparr>"

section \<open>Evaluating the shop\<close>

lemmas shop_defs = ann_def bob_def carol_def hoodie_def cap_def shop_db_def shop_def
  shop_env_def as_ann_def as_bob_def as_carol_def as_anonymous_def

lemma ann_cart:
  "db_query_user_cart (db shop) ''u1'' =
     Some (ann, [\<lparr>entry_id = ''c1'', entry_quantity = 2, entry_item = Some hoodie\<rparr>,
                 \<lparr>entry_id = ''c2'', entry_quantity = 1, entry_item = Some cap\<rparr>])"
  by (simp add: db_query_user_cart_def db_query_user_def fetch_entry_def shop_defs)

section \<open>The arithmetic of the checkout\<close>







section \<open>Checkout: the amount, the charge and the order\<close>

lemma fst_db_createOrder:
  "fst (db_createOrder d t ch drafts uid) =
     \<lparr>order_id = mk_id (id_supply d), order_total = t, order_charge = ch, order_user = uid\<rparr>"
  by (simp add: db_createOrder_def Let_def)


lemma cartItems_db_createOrder:
  "cartItems (snd (db_createOrder d t ch drafts uid)) = cartItems d"
  by (simp add: db_createOrder_def Let_def)


lemma ann_amount:
  "reduce_amount 0 [\<lparr>entry_id = ''c1'', entry_quantity = 2, entry_item = Some hoodie\<rparr>,
                    \<lparr>entry_id = ''c2'', entry_quantity = 1, entry_item = Some cap\<rparr>] = Inr 1300"
  by (simp add: js_plus_def js_times_def round_to_double_def hoodie_def cap_def)




text \<open>
  Claim C2. When the gateway answers the charge of a checkout with an error, the checkout
  fails with \<open>PaymentFailed\<close> and leaves the store as it found it: no order, no order
  item, and every cart item as it was.
\<close>

theorem createOrder_charge_failure_writes_nothing:
  assumes "userId rq = Some uid" and "uid \<noteq> []"
    and "db_query_user_cart (db w) uid = Some (usr, cart)"
    and "reduce_amount 0 cart = Inr amount"
    and "stripe_charges_create e
           \<lparr>req_amount = amount, req_currency = ''USD'', req_source = token\<rparr> = Inl msg"
  shows "fst (createOrder e token rq w) = Inl (PaymentFailed msg) \<and>
         db (snd (createOrder e token rq w)) = db w"
  using assms
  by (simp add: createOrder_def createOrder_interleaved_def Let_def)

theorem createOrder_charge_failure_writes_nothing_witness:
  "fst (createOrder shop_env ''tok_expired'' as_ann shop) = Inl (PaymentFailed ''card_declined'') \<and>
   orders (db (snd (createOrder shop_env ''tok_expired'' as_ann shop))) = [] \<and>
   orderItems (db (snd (createOrder shop_env ''tok_expired'' as_ann shop))) = [] \<and>
   cartItems (db (snd (createOrder shop_env ''tok_expired'' as_ann shop))) = cartItems shop_db"
proof -
  have ident: "userId as_ann = Some ''u1''" by (simp add: as_ann_def)
  have gw: "stripe_charges_create shop_env
              \<lparr>req_amount = 1300, req_currency = ''USD'', req_source = ''tok_expired''\<rparr> =
            Inl ''card_declined''"
    by (simp add: shop_env_def)
  have "fst (createOrder shop_env ''tok_expired'' as_ann shop) = Inl (PaymentFailed ''card_declined'') \<and>
        db (snd (createOrder shop_env ''tok_expired'' as_ann shop)) = db shop"
    by (rule createOrder_charge_failure_writes_nothing[OF ident _ ann_cart ann_amount gw]) simp
  then show ?thesis by (simp add: shop_def shop_db_def)
qed

text \<open>
  Claim C7. A checkout of a signed-in caller whose cart is empty computes the total 0 and
  submits a charge of amount 0 to the gateway; the gateway's answer decides the outcome,
  and a confirmed charge gives an order.
\<close>

theorem createOrder_empty_cart_charges_zero:
  assumes "userId rq = Some uid" and "uid \<noteq> []"
    and "db_query_user (db w) (Some uid) = Some usr"
    and "filter (\<lambda>c. cartItem_user c = uid) (cartItems (db w)) = []"
  shows "charges (snd (createOrder e token rq w)) =
           charges w @ [\<lparr>req_amount = 0, req_currency = ''USD'', req_source = token\<rparr>] \<and>
         (case stripe_charges_create e \<lparr>req_amount = 0, req_currency = ''USD'', req_source = token\<rparr> of
            Inl msg \<Rightarrow> fst (createOrder e token rq w) = Inl (PaymentFailed msg)
          | Inr charge \<Rightarrow>
              fst (createOrder e token rq w) =
                Inr \<lparr>order_id = mk_id (id_supply (db w)), order_total = charge_amount charge,
                     order_charge = charge_id charge, order_user = uid\<rparr>)"
  using assms
  by (simp add: createOrder_def createOrder_interleaved_def db_query_user_cart_def Let_def
      case_prod_beta fst_db_createOrder split: sum.splits)

theorem createOrder_empty_cart_charges_zero_witness:
  "charges (snd (createOrder shop_env ''tok_visa'' as_carol shop)) =
     [\<lparr>req_amount = 0, req_currency = ''USD'', req_source = ''tok_visa''\<rparr>] \<and>
   fst (createOrder shop_env ''tok_visa'' as_carol shop) =
     Inr \<lparr>order_id = ''c'', order_total = 0, order_charge = ''ch_1'', order_user = ''u3''\<rparr>"
proof -
  have ident: "userId as_carol = Some ''u3''" by (simp add: as_carol_def)
  have usr: "db_query_user (db shop) (Some ''u3'') = Some carol"
    by (simp add: db_query_user_def shop_defs)
  have empty: "filter (\<lambda>c. cartItem_user c = ''u3'') (cartItems (db shop)) = []"
    by (simp add: shop_defs)
  from createOrder_empty_cart_charges_zero[OF ident _ usr empty, of shop_env "''tok_visa''"]
  show ?thesis
    by (simp add: shop_def shop_db_def shop_env_def mk_id_def)
qed

section \<open>Checkout: the cart that is cleared\<close>

text \<open>
  Claim C3. A successful checkout deletes the cart items whose identifiers it fetched before
  the charge, and only those: of the cart items the store holds when the cart is cleared,
  whatever other requests did to it while the charge and the order's creation were awaited,
  exactly those with a fetched identifier go; any other, also one added for the same caller
  after the fetch, stays as it is.
\<close>

theorem createOrder_clears_fetched_cart:
  assumes "userId rq = Some uid" and "uid \<noteq> []"
    and "db_query_user_cart (db w) uid = Some (usr, cart)"
    and "reduce_amount 0 cart = Inr amount"
    and "stripe_charges_create e
           \<lparr>req_amount = amount, req_currency = ''USD'', req_source = token\<rparr> = Inr charge"
    and "before_clear =
           during_persist (snd (db_createOrder (during_charge (db w)) (charge_amount charge)
             (charge_id charge) (List.map_filter (orderItem_of_entry uid) cart) uid))"
    and "fetched = map cartItem_id (filter (\<lambda>c. cartItem_user c = uid) (cartItems (db w)))"
  shows "cartItems (db (snd (createOrder_interleaved e during_charge during_persist token rq w))) =
           filter (\<lambda>c. cartItem_id c \<notin> set fetched) (cartItems before_clear)"
proof -
  from assms(3) have ids: "map entry_id cart = fetched"
    unfolding assms(7) by (auto simp: db_query_user_cart_def fetch_entry_def split: option.splits)
  show ?thesis
    using assms(1-6) ids
    by (simp add: createOrder_interleaved_def Let_def case_prod_beta db_deleteManyCartItems_def)
qed

theorem createOrder_clears_fetched_cart_witness:
  "cartItems (db (snd (createOrder_interleaved shop_env late_add (\<lambda>d. d) ''tok_visa'' as_ann shop))) =
     [\<lparr>cartItem_id = ''c3'', cartItem_quantity = 4, cartItem_user = ''u2'', cartItem_item = ''i2''\<rparr>,
      \<lparr>cartItem_id = ''c9'', cartItem_quantity = 1, cartItem_user = ''u1'', cartItem_item = ''i2''\<rparr>]"
proof -
  have ident: "userId as_ann = Some ''u1''" by (simp add: as_ann_def)
  have gw: "stripe_charges_create shop_env
              \<lparr>req_amount = 1300, req_currency = ''USD'', req_source = ''tok_visa''\<rparr> =
            Inr \<lparr>charge_id = ''ch_1'', charge_amount = 1300\<rparr>"
    by (simp add: shop_env_def)
  have "cartItems (db (snd (createOrder_interleaved shop_env late_add (\<lambda>d. d) ''tok_visa'' as_ann shop))) =
          filter (\<lambda>c. cartItem_id c \<notin> set (map cartItem_id
                    (filter (\<lambda>c. cartItem_user c = ''u1'') (cartItems (db shop)))))
            (cartItems (snd (db_createOrder (late_add (db shop)) 1300 ''ch_1''
               (List.map_filter (orderItem_of_entry ''u1'')
                  [\<lparr>entry_id = ''c1'', entry_quantity = 2, entry_item = Some hoodie\<rparr>,
                   \<lparr>entry_id = ''c2'', entry_quantity = 1, entry_item = Some cap\<rparr>]) ''u1'')))"
    by (rule createOrder_clears_fetched_cart[OF ident _ ann_cart ann_amount gw]) simp_all
  then show ?thesis
    by (simp add: cartItems_db_createOrder late_add_def shop_def shop_db_def)
qed

section \<open>Adding to the cart\<close>








section \<open>Guards come before writes\<close>

text \<open>
  What each resolver leaves behind when it throws. Apart from a checkout that the gateway
  declines, which has submitted a charge, a resolver that throws leaves the world as it was.
\<close>

lemma createItem_error: "fst (createItem args rq w) = Inl err \<Longrightarrow> snd (createItem args rq w) = w"
  by (auto simp: createItem_def signInError_def case_prod_beta split: option.splits if_splits sum.splits)

lemma updateItem_error: "fst (updateItem args rq w) = Inl err \<Longrightarrow> snd (updateItem args rq w) = w"
  by (auto simp: updateItem_def itemOwnershipError_def split: option.splits if_splits sum.splits prod.splits)

lemma deleteItem_error: "fst (deleteItem i rq w) = Inl err \<Longrightarrow> snd (deleteItem i rq w) = w"
  by (auto simp: deleteItem_def itemOwnershipError_def split: option.splits if_splits sum.splits prod.splits)

lemma signup_error: "fst (signup e args w) \<noteq> Inl err"
  by (simp add: signup_def Let_def case_prod_beta)

lemma signin_error: "fst (signin e email pw w) = Inl err \<Longrightarrow> snd (signin e email pw w) = w"
  by (auto simp: signin_def split: option.splits if_splits)

lemma signout_error: "fst (signout w) \<noteq> Inl err"
  by (simp add: signout_def)

lemma requestReset_error: "fst (requestReset e email w) = Inl err \<Longrightarrow> snd (requestReset e email w) = w"
  by (auto simp: requestReset_def Let_def split: option.splits prod.splits)

lemma resetPassword_error: "fst (resetPassword e args w) = Inl err \<Longrightarrow> snd (resetPassword e args w) = w"
  by (auto simp: resetPassword_def Let_def split: option.splits prod.splits list.splits if_splits)

lemma updatePermissions_error:
  "fst (updatePermissions t ps rq w) = Inl err \<Longrightarrow> snd (updatePermissions t ps rq w) = w"
  by (auto simp: updatePermissions_def signInError_def split: option.splits if_splits sum.splits prod.splits)

lemma addToCart_error: "fst (addToCart i rq w) = Inl err \<Longrightarrow> snd (addToCart i rq w) = w"
  by (auto simp: addToCart_def signInError_def case_prod_beta split: option.splits if_splits list.splits)

lemma removeFromCart_error: "fst (removeFromCart i rq w) = Inl err \<Longrightarrow> snd (removeFromCart i rq w) = w"
  by (auto simp: removeFromCart_def itemOwnershipError_def split: option.splits if_splits prod.splits)

lemma reduce_amount_error: "reduce_amount t cart = Inl err \<Longrightarrow> err = TypeError"
  by (induction cart arbitrary: t) (auto split: option.splits)

lemma createOrder_guard_error:
  "fst (createOrder e token rq w) = Inl err \<Longrightarrow>
   err \<in> {NotAuthenticated, OwnershipDenied, PermissionDenied} \<Longrightarrow>
   snd (createOrder e token rq w) = w"
  by (auto simp: createOrder_def createOrder_interleaved_def signInError_def Let_def case_prod_beta
      split: option.splits if_splits sum.splits dest: reduce_amount_error)

text \<open>
  Claim C5. Whatever the mutation, when a guard rejects the request (\<open>NotAuthenticated\<close>,
  \<open>OwnershipDenied\<close> or \<open>PermissionDenied\<close>), the request has written nothing: the
  world it leaves, and with it the store, is the one it found.
\<close>

theorem guard_failure_writes_nothing:
  assumes "Mutations e m rq w = (Inl err, w')"
    and "err \<in> {NotAuthenticated, OwnershipDenied, PermissionDenied}"
  shows "w' = w"
proof -
  have r: "\<And>f r. returning f r = (Inl err, w') \<Longrightarrow> fst r = Inl err \<and> snd r = w'"
    by (auto simp: returning_def map_sum_def split: sum.splits)
  show ?thesis
  proof (cases m)
    case (CreateItem a) with assms(1) r createItem_error show ?thesis by fastforce
  next
    case (UpdateItem a) with assms(1) r updateItem_error show ?thesis by fastforce
  next
    case (DeleteItem a) with assms(1) r deleteItem_error show ?thesis by fastforce
  next
    case (Signup a) with assms(1) r signup_error show ?thesis by fastforce
  next
    case (Signin a b) with assms(1) r signin_error show ?thesis by fastforce
  next
    case Signout with assms(1) r signout_error show ?thesis by fastforce
  next
    case (RequestReset a) with assms(1) r requestReset_error show ?thesis by fastforce
  next
    case (ResetPassword a) with assms(1) r resetPassword_error show ?thesis by fastforce
  next
    case (UpdatePermissions a b) with assms(1) r updatePermissions_error show ?thesis by fastforce
  next
    case (AddToCart a) with assms(1) r addToCart_error show ?thesis by fastforce
  next
    case (RemoveFromCart a) with assms(1) r removeFromCart_error show ?thesis by fastforce
  next
    case (CreateOrder a) with assms r createOrder_guard_error show ?thesis by fastforce
  qed
qed

theorem guard_failure_writes_nothing_witness:
  "Mutations shop_env (DeleteItem ''i2'') as_ann shop = (Inl OwnershipDenied, shop) \<and>
   Mutations shop_env (DeleteItem ''i2'') as_bob shop = (Inl PermissionDenied, shop) \<and>
   Mutations shop_env (AddToCart ''i2'') as_anonymous shop = (Inl NotAuthenticated, shop)"
proof -
  have 1: "fst (Mutations shop_env (DeleteItem ''i2'') as_ann shop) = Inl OwnershipDenied"
    by (simp add: returning_def deleteItem_def db_query_item_def itemOwnershipError_def shop_defs)
  have 2: "fst (Mutations shop_env (DeleteItem ''i2'') as_bob shop) = Inl PermissionDenied"
    by (simp add: returning_def deleteItem_def db_query_item_def hasPermission_def shop_defs)
  have 3: "fst (Mutations shop_env (AddToCart ''i2'') as_anonymous shop) = Inl NotAuthenticated"
    by (simp add: returning_def addToCart_def signInError_def shop_defs)
  have "snd (Mutations shop_env (DeleteItem ''i2'') as_ann shop) = shop"
    by (rule guard_failure_writes_nothing[of shop_env "DeleteItem ''i2''" as_ann shop OwnershipDenied])
       (simp_all add: 1[symmetric])
  moreover have "snd (Mutations shop_env (DeleteItem ''i2'') as_bob shop) = shop"
    by (rule guard_failure_writes_nothing[of shop_env "DeleteItem ''i2''" as_bob shop PermissionDenied])
       (simp_all add: 2[symmetric])
  moreover have "snd (Mutations shop_env (AddToCart ''i2'') as_anonymous shop) = shop"
    by (rule guard_failure_writes_nothing[of shop_env "AddToCart ''i2''" as_anonymous shop NotAuthenticated])
       (simp_all add: 3[symmetric])
  ultimately show ?thesis
    using 1 2 3 by (metis prod.collapse)
qed

text \<open>
  Claim C6, as the resolvers have it. \<open>updateItem\<close> and \<open>deleteItem\<close> do not test the
  caller's identity: their first guard is the ownership check, and a request without identity
  on an existing item fails there, with \<open>OwnershipDenied\<close> and not with
  \<open>NotAuthenticated\<close>, before the permission check is reached and with nothing written.
\<close>

theorem anonymous_update_delete_ownership_denied:
  assumes "userId rq = None"
  shows "(\<forall>item. db_query_item (db w) (args ''id'') = Some item \<longrightarrow>
            updateItem args rq w = (Inl OwnershipDenied, w)) \<and>
         (\<forall>item. db_query_item (db w) (Some (JStr id_arg)) = Some item \<longrightarrow>
            deleteItem id_arg rq w = (Inl OwnershipDenied, w))"
  using assms by (simp add: updateItem_def deleteItem_def itemOwnershipError_def)

theorem anonymous_update_delete_ownership_denied_witness:
  "updateItem [''id'' \<mapsto> JStr ''i1'', ''price'' \<mapsto> JNum 450] as_anonymous shop = (Inl OwnershipDenied, shop) \<and>
   deleteItem ''i1'' as_anonymous shop = (Inl OwnershipDenied, shop)"
proof -
  have anon: "userId as_anonymous = None" by (simp add: as_anonymous_def)
  have q1: "db_query_item (db shop) ([''id'' \<mapsto> JStr ''i1'', ''price'' \<mapsto> JNum 450] ''id'') = Some hoodie"
    and q2: "db_query_item (db shop) (Some (JStr ''i1'')) = Some hoodie"
    by (simp_all add: db_query_item_def shop_defs)
  from anonymous_update_delete_ownership_denied[OF anon, of shop "[''id'' \<mapsto> JStr ''i1'', ''price'' \<mapsto> JNum 450]" "''i1''"] q1 q2
  show ?thesis by blast
qed

text \<open>
  Claim C6 as stated fails on this request: without identity, on Ann's hoodie, both resolvers
  answer \<open>OwnershipDenied\<close> where the claim expects \<open>NotAuthenticated\<close>.
\<close>

theorem anonymous_update_delete_counterexample:
  "userId as_anonymous = None \<and>
   fst (updateItem [''id'' \<mapsto> JStr ''i1'', ''price'' \<mapsto> JNum 450] as_anonymous shop) = Inl OwnershipDenied \<and>
   fst (updateItem [''id'' \<mapsto> JStr ''i1'', ''price'' \<mapsto> JNum 450] as_anonymous shop) \<noteq> Inl NotAuthenticated \<and>
   fst (deleteItem ''i1'' as_anonymous shop) = Inl OwnershipDenied \<and>
   fst (deleteItem ''i1'' as_anonymous shop) \<noteq> Inl NotAuthenticated"
  by (simp add: updateItem_def deleteItem_def db_query_item_def itemOwnershipError_def shop_defs)

section \<open>What \<open>updateItem\<close> writes\<close>

lemma write_item_keeps_id: "data ''id'' = None \<Longrightarrow> item_id (write_item data i) = item_id i"
  by (simp add: write_item_def str_field_def)

text \<open>
  Claim C10. When its guards pass, \<open>updateItem\<close> hands the store the arguments it was given
  without their \<open>id\<close>, and nothing else; the identifier is not among the fields written,
  and the items of the store keep their identifiers.
\<close>

theorem updateItem_payload_omits_id:
  assumes "db_query_item (db w) (args ''id'') = Some item"
    and "Some (item_user item) = userId rq"
    and "hasPermission (user rq) [''ITEMUPDATE''] = Inr ()"
  shows "params_data (updateItem_params args) = args |` (- {''id''}) \<and>
         updateItem args rq w =
           (Inr (write_item (args |` (- {''id''})) item),
            w\<lparr>db := snd (db_updateItem (db w) (updateItem_params args))\<rparr>) \<and>
         item_id (write_item (args |` (- {''id''})) item) = item_id item \<and>
         map item_id (items (db (snd (updateItem args rq w)))) = map item_id (items (db w))"
proof -
  have data: "params_data (updateItem_params args) = args |` (- {''id''})"
    by (auto simp: updateItem_params_def restrict_map_def)
  have wh: "params_where (updateItem_params args) = args ''id''"
    by (simp add: updateItem_params_def)
  have keep: "\<And>i. item_id (write_item (args |` (- {''id''})) i) = item_id i"
    by (rule write_item_keeps_id) simp
  have upd: "db_updateItem (db w) (updateItem_params args) =
               (Some (write_item (args |` (- {''id''})) item),
                (db w)\<lparr>items := map (\<lambda>r. if Some (JStr (item_id r)) = args ''id''
                                          then write_item (args |` (- {''id''})) r else r)
                                    (items (db w))\<rparr>)"
    using assms(1) by (simp add: db_updateItem_def data wh)
  have res: "updateItem args rq w =
           (Inr (write_item (args |` (- {''id''})) item),
            w\<lparr>db := snd (db_updateItem (db w) (updateItem_params args))\<rparr>)"
    using assms by (simp add: updateItem_def upd)
  have ids: "map item_id (items (db (snd (updateItem args rq w)))) = map item_id (items (db w))"
    by (simp add: res upd keep if_distrib[of item_id] cong: if_cong)
  from data res keep ids show ?thesis by simp
qed

theorem updateItem_payload_omits_id_witness:
  "params_data (updateItem_params [''id'' \<mapsto> JStr ''i1'', ''price'' \<mapsto> JNum 450]) ''id'' = None \<and>
   params_data (updateItem_params [''id'' \<mapsto> JStr ''i1'', ''price'' \<mapsto> JNum 450]) ''price'' = Some (JNum 450) \<and>
   fst (updateItem [''id'' \<mapsto> JStr ''i1'', ''price'' \<mapsto> JNum 450] as_ann shop) = Inr (hoodie\<lparr>item_price := 450\<rparr>) \<and>
   map item_id (items (db (snd (updateItem [''id'' \<mapsto> JStr ''i1'', ''price'' \<mapsto> JNum 450] as_ann shop)))) = [''i1'', ''i2'']"
proof -
  let ?args = "[''id'' \<mapsto> JStr ''i1'', ''price'' \<mapsto> JNum 450]"
  have q: "db_query_item (db shop) (?args ''id'') = Some hoodie"
    by (simp add: db_query_item_def shop_defs)
  have own: "Some (item_user hoodie) = userId as_ann"
    by (simp add: shop_defs)
  have perm: "hasPermission (user as_ann) [''ITEMUPDATE''] = Inr ()"
    by (simp add: hasPermission_def shop_defs)
  note t = updateItem_payload_omits_id[of shop ?args hoodie as_ann, OF q own perm]
  have d: "params_data (updateItem_params ?args) = ?args |` (- {''id''})"
    using t by blast
  have r: "fst (updateItem ?args as_ann shop) = Inr (write_item (?args |` (- {''id''})) hoodie)"
    using t by simp
  have ids: "map item_id (items (db (snd (updateItem ?args as_ann shop)))) =
               map item_id (items (db shop))"
    using t by blast
  have wr: "write_item (?args |` (- {''id''})) hoodie = hoodie\<lparr>item_price := 450\<rparr>"
    by (simp add: write_item_def str_field_def num_field_def restrict_map_def hoodie_def)
  have all_ids: "map item_id (items (db shop)) = [''i1'', ''i2'']"
    by (simp add: shop_defs)
  have p1: "(?args |` (- {''id''})) ''id'' = None"
    and p2: "(?args |` (- {''id''})) ''price'' = Some (JNum 450)"
    by (simp_all add: restrict_map_def)
  show ?thesis
    by (simp only: d r ids wr all_ids p1 p2 simp_thms)
qed

section \<open>Resetting a password\<close>

text \<open>
  Claim C8, at a failing input. \<open>requestReset\<close> stores as expiry the time one hour from
  now; \<open>resetPassword\<close>, where it checks whether the token is expired, asks the store for
  an expiry no earlier than one hour before now. Bob's token expired at 5000000; at 6000000,
  one million milliseconds later, a call with the token, two equal passwords and Bob's
  current password does not fail: it replaces the password and clears the token.
\<close>

theorem resetPassword_accepts_expired_token:
  "user_resetToken bob = Some ''tok'' \<and> user_resetTokenExpiry bob = Some 5000000 \<and>
   now shop_env = 6000000 \<and>
   fst (resetPassword shop_env
     \<lparr>reset_resetToken = ''tok'', reset_password = ''new'', reset_confirmPassword = ''new'',
      reset_oldPassword = ''pw2''\<rparr> shop) =
     Inr (bob\<lparr>user_password := ''h:new'', user_resetToken := None, user_resetTokenExpiry := None\<rparr>) \<and>
   users (db (snd (resetPassword shop_env
     \<lparr>reset_resetToken = ''tok'', reset_password = ''new'', reset_confirmPassword = ''new'',
      reset_oldPassword = ''pw2''\<rparr> shop))) =
     [ann, bob\<lparr>user_password := ''h:new'', user_resetToken := None, user_resetTokenExpiry := None\<rparr>,
      carol]"
  by (simp add: resetPassword_def db_query_users_reset_def db_updateUser_def Let_def shop_defs)

text \<open>
  The same holds of every token that \<open>requestReset\<close> has written: two hours after the
  request, one hour after the expiry it stored, the lookup of \<open>resetPassword\<close> still finds
  the user.
\<close>

lemma reset_lookup_finds_token_after_expiry:
  assumes "u \<in> set (users (db w))"
    and "user_resetToken u = Some tok"
    and "user_resetTokenExpiry u = Some (requested + 3600000)"
    and "now e \<le> requested + 7200000"
  shows "u \<in> set (db_query_users_reset (db w) tok (now e - 3600000))"
  using assms by (simp add: db_query_users_reset_def)

section \<open>The case of an email\<close>

text \<open>\<open>signup\<close> stores the email in lower case.\<close>

lemma signup_stores_lowercase_email:
  "\<exists>usr. fst (signup e args w) = Inr usr \<and>
         user_email usr = toLowerCase e (signup_email args) \<and>
         users (db (snd (signup e args w))) = users (db w) @ [usr]"
  by (simp add: signup_def db_createUser_def Let_def)

lemma lower_ascii_example:
  "list_all (\<lambda>c. of_char c < (128::nat)) ''Dan@Shop.io'' \<and>
   map (\<lambda>c. if (65::nat) \<le> of_char c \<and> of_char c \<le> (90::nat)
             then char_of (of_char c + (32::nat)) else c) ''Dan@Shop.io'' = ''dan@shop.io''"
  by code_simp

lemma toLowerCase_example: "toLowerCase e ''Dan@Shop.io'' = ''dan@shop.io''"
  using lower_ascii_example unfolding toLowerCase_def by presburger

text \<open>
  Claim C9, at a failing input. \<open>signin\<close> hands the email to the store as it was typed,
  and the store is asked for the row with exactly that email: after Dan signs up as
  \<open>Dan@Shop.io\<close>, stored as \<open>dan@shop.io\<close>, signing in with \<open>Dan@Shop.io\<close> finds no
  user, and only the lower-case spelling signs him in.
\<close>

theorem signin_misses_mixed_case_email:
  "user_email (last (users (db (snd (signup shop_env
      \<lparr>signup_name = ''Dan'', signup_email = ''Dan@Shop.io'', signup_password = ''pw4''\<rparr> shop))))) =
     ''dan@shop.io'' \<and>
   fst (signin shop_env ''Dan@Shop.io'' ''pw4'' (snd (signup shop_env
      \<lparr>signup_name = ''Dan'', signup_email = ''Dan@Shop.io'', signup_password = ''pw4''\<rparr> shop))) =
     Inl (Error ''No such user found for email Dan@Shop.io'') \<and>
   fst (signin shop_env ''dan@shop.io'' ''pw4'' (snd (signup shop_env
      \<lparr>signup_name = ''Dan'', signup_email = ''Dan@Shop.io'', signup_password = ''pw4''\<rparr> shop))) =
     Inr \<lparr>user_id = ''c'', user_name = ''Dan'', user_email = ''dan@shop.io'',
          user_password = ''h:pw4'',
          user_permissions = [''USER'', ''ITEMCREATE'', ''ITEMUPDATE'', ''ITEMDELETE''],
          user_resetToken = None, user_resetTokenExpiry = None\<rparr>"
  by (simp add: signup_def signin_def db_createUser_def db_query_user_by_email_def Let_def
      toLowerCase_example mk_id_def shop_defs)

end
